theory Spec2Isabelle
  imports Complex_Main
begin

section \<open>The peak finder of \<open>anlffr/preproc.py\<close>\<close>

text \<open>
  The development embeds \<open>peak_finder\<close> (lines 91 to 251 of \<open>src/anlffr/preproc.py\<close>).
  Samples are real numbers in the model. Two steps of the source depend on the machine
  arithmetic of the array, and the model keeps both explicit:
  \<^item> the element type of the array: an integer array cannot hold \<open>-eps\<close>, the store of
    line 146 casts it to 0;
  \<^item> the comparison \<open>a * b < 0\<close> of line 148 on two neighbouring differences: a
    float64 product can underflow to zero or round, an int64 product can wrap. Its
    outcome is the parameter \<open>lt0\<close> of the model, and the general theorems hold for
    every \<open>lt0\<close>; \<open>exact_lt0\<close> is the comparison where the product is exact.
  NaN and infinities are outside the model, and sums with the threshold are exact.

  Everything that raises in the source is a value \<open>Inl e\<close> of the model.
\<close>

subsection \<open>Values and errors\<close>

datatype error =
    ValueError string
  | AssertionError
  | TypeError
  | IndexError
  | UnboundLocalError

text \<open>
  The input after \<open>np.asanyarray\<close>: a shape, an element type and the flat contents.
  A list of Python floats becomes a float64 array, a list of Python ints an int64 array.
\<close>

datatype dtype = Float64 | Int64

record ndarray =
  shape :: "nat list"
  dtype :: dtype
  data :: "real list"

definition ndim :: "ndarray \<Rightarrow> nat" where
  "ndim a = length (shape a)"

text \<open>
  The two results are numpy arrays on the scanner path; on the other path they are
  numpy scalars (\<open>x[x_ind]\<close>, \<open>ind[x_ind]\<close>) or the empty Python list \<open>[]\<close>.
\<close>

datatype 'a pyobj = NdArray "'a list" | NpScalar 'a | PyList "'a list"

definition bnd :: "error + 'a \<Rightarrow> ('a \<Rightarrow> error + 'b) \<Rightarrow> error + 'b" where
  "bnd m f = (case m of Inl e \<Rightarrow> Inl e | Inr v \<Rightarrow> f v)"

text \<open>Reading \<open>xs[i]\<close>: a negative index counts from the end, out of range raises.\<close>

definition get :: "'a list \<Rightarrow> int \<Rightarrow> error + 'a" where
  "get xs i =
     (if 0 \<le> i \<and> i < int (length xs) then Inr (xs ! nat i)
      else if i < 0 \<and> - int (length xs) \<le> i then Inr (xs ! nat (int (length xs) + i))
      else Inl IndexError)"

text \<open>Writing \<open>xs[i] = v\<close> with a counter \<open>i\<close> that is never negative.\<close>

definition set_item :: "'a list \<Rightarrow> nat \<Rightarrow> 'a \<Rightarrow> error + 'a list" where
  "set_item xs i v = (if i < length xs then Inr (xs[i := v]) else Inl IndexError)"

text \<open>\<open>np.max\<close> and \<open>np.min\<close> raise on an array without elements.\<close>

definition np_max :: "real list \<Rightarrow> error + real" where
  "np_max xs =
     (case xs of
        [] \<Rightarrow> Inl (ValueError ''zero-size array to reduction operation maximum which has no identity'')
      | y # ys \<Rightarrow> Inr (fold max ys y))"

definition np_min :: "real list \<Rightarrow> error + real" where
  "np_min xs =
     (case xs of
        [] \<Rightarrow> Inl (ValueError ''zero-size array to reduction operation minimum which has no identity'')
      | y # ys \<Rightarrow> Inr (fold min ys y))"

text \<open>\<open>np.argmax\<close>: the first position of the largest element.\<close>

fun argmax_from :: "real list \<Rightarrow> nat \<Rightarrow> nat \<Rightarrow> real \<Rightarrow> nat" where
  "argmax_from [] i best bv = best"
| "argmax_from (y # ys) i best bv =
     (if y > bv then argmax_from ys (Suc i) i y else argmax_from ys (Suc i) best bv)"

definition np_argmax :: "real list \<Rightarrow> error + int" where
  "np_argmax xs =
     (case xs of
        [] \<Rightarrow> Inl (ValueError ''attempt to get argmax of an empty sequence'')
      | y # ys \<Rightarrow> Inr (int (argmax_from ys 1 0 y)))"

text \<open>\<open>np.diff\<close> of a one-dimensional array.\<close>

definition np_diff :: "real list \<Rightarrow> real list" where
  "np_diff xs = map (\<lambda>(a, b). b - a) (zip xs (tl xs))"

text \<open>\<open>np.finfo(float).eps\<close>.\<close>

definition float_eps :: real where
  "float_eps = 1 / 2 ^ 52"

text \<open>
  The value that \<open>dx0[dx0 == 0] = -np.finfo(float).eps\<close> stores: \<open>-eps\<close> in a float
  array, and its cast to an integer, which is 0, in an integer array.
\<close>

definition stored_eps :: "dtype \<Rightarrow> real" where
  "stored_eps dt = (case dt of Float64 \<Rightarrow> - float_eps | Int64 \<Rightarrow> 0)"

definition fix_zero :: "dtype \<Rightarrow> real list \<Rightarrow> real list" where
  "fix_zero dt dx0 = map (\<lambda>d. if d = 0 then stored_eps dt else d) dx0"

text \<open>
  \<open>np.where(dx0[:-1:] * dx0[1::] < 0)[0] + 1\<close>, where \<open>lt0 a b\<close> is the outcome of
  \<open>a * b < 0\<close> in the arithmetic of the array.
\<close>

definition sign_change :: "(real \<Rightarrow> real \<Rightarrow> bool) \<Rightarrow> real list \<Rightarrow> nat list" where
  "sign_change lt0 dx0 =
     map Suc (filter (\<lambda>i. lt0 (butlast dx0 ! i) (tl dx0 ! i)) [0..<length dx0 - 1])"

text \<open>The comparison when the product is exact (no underflow, rounding or wrap).\<close>

definition exact_lt0 :: "real \<Rightarrow> real \<Rightarrow> bool" where
  "exact_lt0 a b \<longleftrightarrow> a * b < 0"

text \<open>In-place \<open>peak_mags *= -1.0\<close>: a Python list cannot be multiplied by a float.\<close>

definition imul_neg :: "real pyobj \<Rightarrow> error + real pyobj" where
  "imul_neg v =
     (case v of
        NdArray xs \<Rightarrow> Inr (NdArray (map (\<lambda>a. a * (- 1)) xs))
      | NpScalar a \<Rightarrow> Inr (NpScalar (a * (- 1)))
      | PyList xs \<Rightarrow> Inl TypeError)"

text \<open>\<open>len(peak_inds)\<close>: a numpy scalar has no length.\<close>

definition py_len :: "'a pyobj \<Rightarrow> error + nat" where
  "py_len v =
     (case v of
        NdArray xs \<Rightarrow> Inr (length xs)
      | NpScalar a \<Rightarrow> Inl TypeError
      | PyList xs \<Rightarrow> Inr (length xs))"

subsection \<open>Candidates\<close>

text \<open>
  Lines 144 to 156: the differences, the sign changes, and the candidate values \<open>x\<close> with
  their positions \<open>ind\<close> in the signal, both end points included.
\<close>

definition candidates ::
  "(real \<Rightarrow> real \<Rightarrow> bool) \<Rightarrow> dtype \<Rightarrow> real list \<Rightarrow> real list \<times> int list" where
  "candidates lt0 dt x0 =
     (let s = int (length x0);
          dx0 = fix_zero dt (np_diff x0);
          ind = sign_change lt0 dx0;
          x = take 1 x0 @ map (\<lambda>i. x0 ! i) ind @ (if x0 = [] then [] else [last x0])
      in (x, [0] @ map int ind @ [s - 1]))"

subsection \<open>The scanner\<close>

record scan_state =
  ii :: int
  temp_mag :: real
  temp_loc :: "int option"
  found_peak :: bool
  left_min :: real
  peak_loc :: "int list"
  peak_mag :: "real list"
  c_ind :: nat

datatype 's outcome = Brk 's | Cont 's

text \<open>
  Lines 168 to 181: the first point was tacked on, so its sign need not alternate.
  The result is the start value of \<open>ii\<close> and the candidates after the adjustment.
\<close>

definition bootstrap :: "real list \<Rightarrow> int list \<Rightarrow> int \<times> real list \<times> int list \<times> int" where
  "bootstrap x ind =
     (let len = int (length x);
          signDx = map sgn (np_diff (take 3 x))
      in if signDx ! 0 \<le> 0 then
           (if signDx ! 0 = signDx ! 1
            then (- 1, take 1 x @ drop 2 x, take 1 ind @ drop 2 ind, len - 1)
            else (- 1, x, ind, len))
         else
           (if signDx ! 0 = signDx ! 1
            then (0, drop 1 x, drop 1 ind, len - 1)
            else (0, x, ind, len)))"

text \<open>\<open>int(ceil(length / 2.0))\<close>.\<close>

definition maxPeaks :: "int \<Rightarrow> nat" where
  "maxPeaks len = nat \<lceil>real_of_int len / 2\<rceil>"

definition init_state :: "int \<Rightarrow> real \<Rightarrow> int \<Rightarrow> scan_state" where
  "init_state ii0 min_mag len =
     \<lparr>ii = ii0, temp_mag = min_mag, temp_loc = None, found_peak = False,
      left_min = min_mag,
      peak_loc = replicate (maxPeaks len) 0, peak_mag = replicate (maxPeaks len) 0,
      c_ind = 0\<rparr>"

text \<open>
  Lines 193 and 194, with \<open>ii\<close> already advanced: \<open>peak_mag[-1]\<close> is the last slot of the
  preallocated array.
\<close>

definition reset_cond :: "real list \<Rightarrow> real \<Rightarrow> scan_state \<Rightarrow> error + bool" where
  "reset_cond x thresh st =
     (if found_peak st then
        bnd (get x (ii st)) (\<lambda>xi.
        bnd (get (peak_mag st) (- 1)) (\<lambda>pm.
          Inr (xi > pm \<or> left_min st < pm - thresh)))
      else Inr False)"

text \<open>Lines 190 to 196, the first half of the peak step: advance and maybe reset.\<close>

definition peak_reset :: "real list \<Rightarrow> real \<Rightarrow> real \<Rightarrow> scan_state \<Rightarrow> error + scan_state" where
  "peak_reset x min_mag thresh st =
     (let st1 = st\<lparr>ii := ii st + 1\<rparr> in
      bnd (reset_cond x thresh st1) (\<lambda>r.
        Inr (if r then st1\<lparr>temp_mag := min_mag, found_peak := False\<rparr> else st1)))"

text \<open>Lines 204 to 206, the second half of the peak step: a new pending peak.\<close>

definition peak_pending :: "real list \<Rightarrow> real \<Rightarrow> scan_state \<Rightarrow> error + scan_state" where
  "peak_pending x thresh st =
     bnd (get x (ii st)) (\<lambda>xi.
       Inr (if xi > temp_mag st \<and> xi > left_min st + thresh
            then st\<lparr>temp_loc := Some (ii st), temp_mag := xi\<rparr> else st))"

text \<open>Lines 208 to 217, the valley step: confirm the pending peak or lower \<open>left_min\<close>.\<close>

definition valley_step :: "real list \<Rightarrow> real \<Rightarrow> scan_state \<Rightarrow> error + scan_state" where
  "valley_step x thresh st =
     (let st4 = st\<lparr>ii := ii st + 1\<rparr> in
      bnd (get x (ii st4)) (\<lambda>xv.
        if \<not> found_peak st4 \<and> temp_mag st4 > thresh + xv then
          (case temp_loc st4 of
             None \<Rightarrow> Inl UnboundLocalError
           | Some l \<Rightarrow>
               bnd (set_item (peak_loc st4) (c_ind st4) l) (\<lambda>pl.
               bnd (set_item (peak_mag st4) (c_ind st4) (temp_mag st4)) (\<lambda>pm.
                 Inr (st4\<lparr>found_peak := True, left_min := xv,
                          peak_loc := pl, peak_mag := pm,
                          c_ind := c_ind st4 + 1\<rparr>))))
        else if xv < left_min st4 then Inr (st4\<lparr>left_min := xv\<rparr>)
        else Inr st4))"

text \<open>
  Lines 190 to 217: one round of the loop. The round ends the loop (line 200) when the
  peak step has reached the last candidate.
\<close>

definition loop_body ::
  "real list \<Rightarrow> int \<Rightarrow> real \<Rightarrow> real \<Rightarrow> scan_state \<Rightarrow> error + scan_state outcome" where
  "loop_body x len min_mag thresh st =
     bnd (peak_reset x min_mag thresh st) (\<lambda>st2.
       if ii st2 = len - 1 then Inr (Brk st2)
       else
         bnd (peak_pending x thresh st2) (\<lambda>st3.
         bnd (valley_step x thresh st3) (\<lambda>st4. Inr (Cont st4))))"

lemma loop_body_Cont_ii:
  "loop_body x len min_mag thresh st = Inr (Cont st') \<Longrightarrow> ii st' = ii st + 2"
  by (auto simp: loop_body_def peak_reset_def peak_pending_def valley_step_def
      reset_cond_def set_item_def bnd_def Let_def
      split: sum.splits if_splits option.splits)

text \<open>Line 189: \<open>while ii < (length - 1)\<close>.\<close>

function scan ::
  "real list \<Rightarrow> int \<Rightarrow> real \<Rightarrow> real \<Rightarrow> scan_state \<Rightarrow> error + scan_state" where
  "scan x len min_mag thresh st =
     (if ii st < len - 1 then
        (case loop_body x len min_mag thresh st of
           Inl e \<Rightarrow> Inl e
         | Inr (Brk st') \<Rightarrow> Inr st'
         | Inr (Cont st') \<Rightarrow> scan x len min_mag thresh st')
      else Inr st)"
  by pat_completeness auto
termination
  by (relation "measure (\<lambda>(x, len, min_mag, thresh, st). nat (len - ii st))")
     (auto dest: loop_body_Cont_ii)

declare scan.simps [simp del]

text \<open>Lines 220 to 228: the end point.\<close>

definition finalize ::
  "real list \<Rightarrow> int \<Rightarrow> real \<Rightarrow> real \<Rightarrow> scan_state \<Rightarrow> error + scan_state" where
  "finalize x len min_mag thresh st =
     bnd (get x (- 1)) (\<lambda>xl.
       if xl > temp_mag st \<and> xl > left_min st + thresh then
         bnd (set_item (peak_loc st) (c_ind st) (len - 1)) (\<lambda>pl.
         bnd (set_item (peak_mag st) (c_ind st) xl) (\<lambda>pm.
           Inr (st\<lparr>peak_loc := pl, peak_mag := pm, c_ind := c_ind st + 1\<rparr>)))
       else if \<not> found_peak st \<and> temp_mag st > min_mag then
         (case temp_loc st of
            None \<Rightarrow> Inl UnboundLocalError
          | Some l \<Rightarrow>
              bnd (set_item (peak_loc st) (c_ind st) l) (\<lambda>pl.
              bnd (set_item (peak_mag st) (c_ind st) (temp_mag st)) (\<lambda>pm.
                Inr (st\<lparr>peak_loc := pl, peak_mag := pm, c_ind := c_ind st + 1\<rparr>))))
       else Inr st)"

text \<open>\<open>ind[peak_loc[:c_ind]]\<close>: indexing with an array of positions.\<close>

fun fancy_index :: "'a list \<Rightarrow> int list \<Rightarrow> error + 'a list" where
  "fancy_index xs [] = Inr []"
| "fancy_index xs (i # is) =
     bnd (get xs i) (\<lambda>v. bnd (fancy_index xs is) (\<lambda>vs. Inr (v # vs)))"

text \<open>Lines 158 to 232: the branch for more than two candidates.\<close>

definition scanner ::
  "real list \<Rightarrow> int list \<Rightarrow> real \<Rightarrow> real \<Rightarrow> error + (int pyobj \<times> real pyobj)" where
  "scanner x ind min_mag thresh =
     (case bootstrap x ind of (ii0, x', ind', len) \<Rightarrow>
        bnd (scan x' len min_mag thresh (init_state ii0 min_mag len)) (\<lambda>st.
        bnd (finalize x' len min_mag thresh st) (\<lambda>st'.
        bnd (fancy_index ind' (take (c_ind st') (peak_loc st'))) (\<lambda>peak_inds.
          Inr (NdArray peak_inds, NdArray (take (c_ind st') (peak_mag st')))))))"

text \<open>Lines 233 to 240: at most two candidates.\<close>

definition degenerate ::
  "real list \<Rightarrow> int list \<Rightarrow> real \<Rightarrow> real \<Rightarrow> error + (int pyobj \<times> real pyobj)" where
  "degenerate x ind min_mag thresh =
     bnd (np_argmax x) (\<lambda>x_ind.
     bnd (get x x_ind) (\<lambda>peak_mags.
       if peak_mags > min_mag + thresh
       then bnd (get ind x_ind) (\<lambda>peak_inds. Inr (NpScalar peak_inds, NpScalar peak_mags))
       else Inr (PyList [], PyList [])))"

subsection \<open>The function\<close>

text \<open>Lines 136 and 137: the threshold when none is given.\<close>

definition thresh_of :: "real list \<Rightarrow> real option \<Rightarrow> error + real" where
  "thresh_of x0 thresh =
     (case thresh of
        None \<Rightarrow>
          bnd (np_max x0) (\<lambda>mx.
          bnd (np_min x0) (\<lambda>mn. Inr ((mx - mn) / 4)))
      | Some t \<Rightarrow> Inr t)"

definition peak_finder ::
  "(real \<Rightarrow> real \<Rightarrow> bool) \<Rightarrow> ndarray \<Rightarrow> real option \<Rightarrow> int \<Rightarrow>
     error + (int pyobj \<times> real pyobj)" where
  "peak_finder lt0 x0 thresh extrema =
     (if ndim x0 \<ge> 2 then Inl (ValueError ''The input data must be a 1D vector'')
      else
        bnd (thresh_of (data x0) thresh) (\<lambda>thresh.
        if extrema \<noteq> - 1 \<and> extrema \<noteq> 1 then Inl AssertionError
        else
          let w = (if extrema = - 1 then map (\<lambda>v. real_of_int extrema * v) (data x0)
                   else data x0)
          in
          if ndim x0 = 0
          then Inl (ValueError ''diff requires input that is at least one dimensional'')
          else
            (case candidates lt0 (dtype x0) w of (x, ind) \<Rightarrow>
               bnd (np_min x) (\<lambda>min_mag.
               bnd (if length x > 2 then scanner x ind min_mag thresh
                    else degenerate x ind min_mag thresh) (\<lambda>(peak_inds, peak_mags).
               bnd (if extrema < 0 then imul_neg peak_mags else Inr peak_mags) (\<lambda>peak_mags.
               bnd (py_len peak_inds) (\<lambda>n.
                 Inr (peak_inds, peak_mags))))))))"

text \<open>One-dimensional arrays: of floats, and of integers.\<close>

definition vec :: "real list \<Rightarrow> ndarray" where
  "vec xs = \<lparr>shape = [length xs], dtype = Float64, data = xs\<rparr>"

definition ivec :: "int list \<Rightarrow> ndarray" where
  "ivec xs = \<lparr>shape = [length xs], dtype = Int64, data = map real_of_int xs\<rparr>"

section \<open>Invariants of the scanner\<close>









section \<open>Properties\<close>

subsection \<open>Auxiliary facts\<close>

lemma np_max_Max: "xs \<noteq> [] \<Longrightarrow> np_max xs = Inr (Max (set xs))"
  by (cases xs) (simp_all add: np_max_def Max.set_eq_fold [symmetric])

lemma np_min_Min: "xs \<noteq> [] \<Longrightarrow> np_min xs = Inr (Min (set xs))"
  by (cases xs) (simp_all add: np_min_def Min.set_eq_fold [symmetric])

lemma argmax_from_bound:
  "best < i \<Longrightarrow> argmax_from ys i best bv < i + length ys"
proof (induction ys arbitrary: i best bv)
  case Nil
  then show ?case by simp
next
  case (Cons y ys)
  have "argmax_from ys (Suc i) i y < Suc i + length ys"
    by (rule Cons.IH) simp
  moreover have "argmax_from ys (Suc i) best bv < Suc i + length ys"
    by (rule Cons.IH) (use Cons.prems in simp)
  ultimately show ?case by simp
qed

lemma np_argmax_in_range:
  "xs \<noteq> [] \<Longrightarrow> \<exists>k < length xs. np_argmax xs = Inr (int k)"
proof (cases xs)
  case Nil
  assume "xs \<noteq> []" with Nil show ?thesis by simp
next
  case (Cons y ys)
  have "argmax_from ys 1 0 y < 1 + length ys" by (rule argmax_from_bound) simp
  with Cons show ?thesis by (simp add: np_argmax_def)
qed

lemma get_nat: "k < length xs \<Longrightarrow> get xs (int k) = Inr (xs ! k)"
  by (simp add: get_def)

lemma candidates_nonempty: "x0 \<noteq> [] \<Longrightarrow> fst (candidates lt0 dt x0) \<noteq> []"
  by (cases x0) (simp_all add: candidates_def Let_def)

lemma length_np_diff [simp]: "length (np_diff xs) = length xs - 1"
  by (simp add: np_diff_def)

lemma nth_np_diff: "Suc i < length xs \<Longrightarrow> np_diff xs ! i = xs ! Suc i - xs ! i"
  by (simp add: np_diff_def nth_tl)

lemma length_fix_zero [simp]: "length (fix_zero dt ds) = length ds"
  by (simp add: fix_zero_def)

lemma float_eps_pos: "0 < float_eps"
  by (simp add: float_eps_def)

text \<open>In an integer array the store of line 146 changes nothing.\<close>

lemma fix_zero_Int64: "fix_zero Int64 ds = ds"
  by (induction ds) (simp_all add: fix_zero_def stored_eps_def)




text \<open>
  The candidates depend on the comparison only through the neighbouring differences of
  the signal at hand.
\<close>

lemma sign_change_cong:
  assumes "\<And>i. Suc i < length D \<Longrightarrow> lt0 (D ! i) (D ! Suc i) = lt1 (D ! i) (D ! Suc i)"
  shows "sign_change lt0 D = sign_change lt1 D"
proof -
  have "filter (\<lambda>i. lt0 (butlast D ! i) (tl D ! i)) [0..<length D - 1]
      = filter (\<lambda>i. lt1 (butlast D ! i) (tl D ! i)) [0..<length D - 1]"
    by (rule filter_cong) (use assms in \<open>auto simp: nth_butlast nth_tl\<close>)
  then show ?thesis by (simp add: sign_change_def)
qed

text \<open>
  What lines 193 and 194 compare with: the last slot of \<open>peak_mag\<close>, whatever
  \<open>c_ind\<close> is.
\<close>

lemma reset_cond_last_slot:
  assumes "found_peak st" and "0 \<le> ii st" and "ii st < int (length x)"
    and "peak_mag st \<noteq> []"
  shows "reset_cond x thresh st =
           Inr (x ! nat (ii st) > last (peak_mag st) \<or>
                left_min st < last (peak_mag st) - thresh)"
proof -
  have "nat (int (length (peak_mag st)) - 1) = length (peak_mag st) - 1"
    by (cases "peak_mag st") simp_all
  moreover from assms(4) have "Suc 0 \<le> length (peak_mag st)"
    by (cases "peak_mag st") simp_all
  ultimately show ?thesis
    using assms by (simp add: reset_cond_def bnd_def get_def last_conv_nth)
qed


subsection \<open>Shape validation\<close>

text \<open>
  C8. An input of rank two or more fails with the shape error whatever its contents,
  whatever the threshold and whatever the polarity argument: the test comes before the
  default threshold, the polarity assertion, the differences and the scan.
\<close>

theorem rank_check_first:
  "2 \<le> ndim x0 \<Longrightarrow>
   peak_finder lt0 x0 thresh extrema = Inl (ValueError ''The input data must be a 1D vector'')"
  by (simp add: peak_finder_def)

theorem rank_check_first_witness:
  "2 \<le> ndim \<lparr>shape = [2, 2], dtype = Float64, data = [0, 3, 0, 1]\<rparr> \<and>
   peak_finder exact_lt0 \<lparr>shape = [2, 2], dtype = Float64, data = [0, 3, 0, 1]\<rparr> None 7
     = Inl (ValueError ''The input data must be a 1D vector'')"
  using rank_check_first
    [of "\<lparr>shape = [2, 2], dtype = Float64, data = [0, 3, 0, 1]\<rparr>" exact_lt0 None 7]
  by (simp add: ndim_def)

subsection \<open>Default threshold\<close>

text \<open>
  C7. For a one-dimensional signal with at least one sample, calling without a
  threshold is the same as calling with a quarter of the range of the signal, for
  every polarity argument.
\<close>

theorem default_thresh:
  "ndim x0 = 1 \<Longrightarrow> data x0 \<noteq> [] \<Longrightarrow>
   peak_finder lt0 x0 None extrema
     = peak_finder lt0 x0 (Some ((Max (set (data x0)) - Min (set (data x0))) / 4)) extrema"
  by (simp add: peak_finder_def thresh_of_def np_max_Max np_min_Min bnd_def)

theorem default_thresh_witness:
  "ndim (vec [0, 8, 0, 3, 1]) = 1 \<and> data (vec [0, 8, 0, 3, 1]) \<noteq> [] \<and>
   peak_finder exact_lt0 (vec [0, 8, 0, 3, 1]) None 1
     = peak_finder exact_lt0 (vec [0, 8, 0, 3, 1]) (Some 2) 1 \<and>
   peak_finder exact_lt0 (vec [0, 8, 0, 3, 1]) (Some 2) 1
     = Inr (NdArray [1, 3], NdArray [8, 3])"
proof -
  have a: "ndim (vec [0, 8, 0, 3, 1]) = 1" by (simp add: ndim_def vec_def)
  have b: "data (vec [0, 8, 0, 3, 1]) \<noteq> []" by (simp add: vec_def)
  have c: "(Max (set (data (vec [0, 8, 0, 3, 1]))) - Min (set (data (vec [0, 8, 0, 3, 1])))) / 4 = 2"
    by (simp add: vec_def)
  have d: "peak_finder exact_lt0 (vec [0, 8, 0, 3, 1]) (Some 2) 1
      = Inr (NdArray [1, 3], NdArray [8, 3])"
    by code_simp
  from default_thresh [OF a b, of exact_lt0 1] c d a b show ?thesis by simp
qed

subsection \<open>At most two candidates\<close>

text \<open>
  C2. On the monotone signal 1, 2, 3, 4, 5 with threshold 1 and maxima the source
  takes the branch for at most two candidates, binds \<open>peak_inds\<close> to the numpy scalar
  \<open>ind[x_ind]\<close>, and then raises at \<open>len(peak_inds)\<close>: no record is returned. All
  differences are 1 and their products are exact.
\<close>

theorem monotone_raises:
  "peak_finder exact_lt0 (vec [1, 2, 3, 4, 5]) (Some 1) 1 = Inl TypeError"
  by code_simp

text \<open>The same signal at every threshold.\<close>

lemma monotone_every_thresh:
  "peak_finder exact_lt0 (vec [1, 2, 3, 4, 5]) (Some t) 1 =
     (if 5 > 1 + t then Inl TypeError else Inr (PyList [], PyList []))"
proof -
  have cand: "candidates exact_lt0 Float64 [1, 2, 3, 4, 5] = ([1, 5], [0, 4])"
    by code_simp
  have mn: "np_min [1, 5] = Inr 1"
    by (simp add: np_min_def)
  have am: "np_argmax [1, 5] = Inr 1"
    by (simp add: np_argmax_def)
  show ?thesis
    by (simp add: peak_finder_def vec_def ndim_def thresh_of_def bnd_def cand mn am
        degenerate_def get_def py_len_def)
qed

text \<open>
  C3. On the signal 1, 2, 3 with threshold 5 the call for minima raises (the empty
  list is multiplied by a float at line 244), while the call for maxima on the negated
  signal returns the empty result.
\<close>

theorem minima_not_mirror:
  "peak_finder exact_lt0 (vec [1, 2, 3]) (Some 5) (- 1) = Inl TypeError \<and>
   peak_finder exact_lt0 (vec (map uminus [1, 2, 3])) (Some 5) 1 = Inr (PyList [], PyList [])"
  by code_simp

text \<open>
  C9. With minima polarity, a signal that has at most two candidates none of which
  exceeds the candidate minimum plus the threshold makes the call raise a TypeError,
  whatever the element type and the arithmetic of the comparison.
\<close>

theorem degenerate_minima_raises:
  assumes "ndim x0 = 1" and "data x0 \<noteq> []"
    and "thresh_of (data x0) thresh = Inr t"
    and "candidates lt0 (dtype x0) (map uminus (data x0)) = (x, ind)"
    and "length x \<le> 2"
    and "\<forall>v \<in> set x. \<not> v > Min (set x) + t"
  shows "peak_finder lt0 x0 thresh (- 1) = Inl TypeError"
proof -
  from assms(2,4) have ne: "x \<noteq> []"
    using candidates_nonempty [of "map uminus (data x0)" lt0 "dtype x0"] by simp
  then obtain k where k: "k < length x" "np_argmax x = Inr (int k)"
    using np_argmax_in_range by blast
  from k(1) assms(6) have small: "\<not> x ! k > Min (set x) + t" by simp
  have deg: "degenerate x ind (Min (set x)) t = Inr (PyList [], PyList [])"
    using k small by (simp add: degenerate_def bnd_def get_nat)
  have neg: "map ((*) (- 1)) (data x0) = map uminus (data x0)"
    by simp
  show ?thesis
    unfolding peak_finder_def
    using assms(1,3,4,5) ne deg
    by (simp add: bnd_def np_min_Min imul_neg_def neg)
qed

theorem degenerate_minima_raises_witness:
  "ndim (vec [1, 2, 3]) = 1 \<and> data (vec [1, 2, 3]) \<noteq> [] \<and>
   thresh_of (data (vec [1, 2, 3])) (Some 5) = Inr 5 \<and>
   candidates exact_lt0 (dtype (vec [1, 2, 3])) (map uminus (data (vec [1, 2, 3])))
     = ([- 1, - 3], [0, 2]) \<and>
   length [- 1, - 3 :: real] \<le> 2 \<and>
   \<not> (- 1 :: real) > Min (set [- 1, - 3]) + 5 \<and>
   \<not> (- 3 :: real) > Min (set [- 1, - 3]) + 5 \<and>
   peak_finder exact_lt0 (vec [1, 2, 3]) (Some 5) (- 1) = Inl TypeError"
proof -
  have a: "ndim (vec [1, 2, 3]) = 1" by (simp add: ndim_def vec_def)
  have b: "data (vec [1, 2, 3]) \<noteq> []" by (simp add: vec_def)
  have c: "thresh_of (data (vec [1, 2, 3])) (Some 5) = Inr 5" by (simp add: thresh_of_def)
  have d: "candidates exact_lt0 (dtype (vec [1, 2, 3])) (map uminus (data (vec [1, 2, 3])))
      = ([- 1, - 3], [0, 2])"
    by code_simp
  have e: "length [- 1, - 3 :: real] \<le> 2" by simp
  have f: "\<forall>v \<in> set [- 1, - 3 :: real]. \<not> v > Min (set [- 1, - 3]) + 5" by simp
  have g: "\<not> (- 1 :: real) > Min (set [- 1, - 3]) + 5"
    and h: "\<not> (- 3 :: real) > Min (set [- 1, - 3]) + 5" by simp_all
  from degenerate_minima_raises [OF a b c d e f] a b c d e g h show ?thesis by blast
qed

subsection \<open>The reset test of the peak step\<close>

text \<open>
  C1. On the signal -1, 5, -1, 0, -1, 0, -1 with threshold 1 the first round of the
  loop confirms the peak 5 and leaves \<open>left_min = -1\<close>. At the next peak step the
  candidate is 0; \<open>left_min\<close> is below the confirmed magnitude minus the threshold
  (\<open>-1 < 5 - 1\<close>), yet the source does not reset: it compares with \<open>peak_mag[-1]\<close>,
  which is the still empty last slot 0. The comment above line 193 speaks of the last peak.
\<close>

theorem reset_reads_last_slot:
  "candidates exact_lt0 Float64 [- 1, 5, - 1, 0, - 1, 0, - 1]
     = ([- 1, 5, - 1, 0, - 1, 0, - 1], [0, 1, 2, 3, 4, 5, 6]) \<and>
   bootstrap [- 1, 5, - 1, 0, - 1, 0, - 1] [0, 1, 2, 3, 4, 5, 6]
     = (0, [- 1, 5, - 1, 0, - 1, 0, - 1], [0, 1, 2, 3, 4, 5, 6], 7) \<and>
   loop_body [- 1, 5, - 1, 0, - 1, 0, - 1] 7 (- 1) 1 (init_state 0 (- 1) 7)
     = Inr (Cont \<lparr>ii = 2, temp_mag = 5, temp_loc = Some 1, found_peak = True,
                  left_min = - 1, peak_loc = [1, 0, 0, 0], peak_mag = [5, 0, 0, 0],
                  c_ind = 1\<rparr>) \<and>
   peak_reset [- 1, 5, - 1, 0, - 1, 0, - 1] (- 1) 1
       \<lparr>ii = 2, temp_mag = 5, temp_loc = Some 1, found_peak = True,
        left_min = - 1, peak_loc = [1, 0, 0, 0], peak_mag = [5, 0, 0, 0], c_ind = 1\<rparr>
     = Inr \<lparr>ii = 3, temp_mag = 5, temp_loc = Some 1, found_peak = True,
            left_min = - 1, peak_loc = [1, 0, 0, 0], peak_mag = [5, 0, 0, 0], c_ind = 1\<rparr> \<and>
   reset_cond [- 1, 5, - 1, 0, - 1, 0, - 1] 1
       \<lparr>ii = 3, temp_mag = 5, temp_loc = Some 1, found_peak = True,
        left_min = - 1, peak_loc = [1, 0, 0, 0], peak_mag = [5, 0, 0, 0], c_ind = 1\<rparr>
     = Inr False \<and>
   (- 1 :: real) < [5, 0, 0, 0] ! (1 - 1) - 1"
  by code_simp

subsection \<open>Plateaus\<close>

text \<open>
  C5. The docstring says that of repeated values the first is the peak, and line 146
  is there for that. On the integer array 0, 5, 5, 5, 0 with threshold 1 the store of
  \<open>-eps\<close> is cast to 0: the zero differences stay zero, no product is negative, the
  only candidates are the two end points, and the source returns no peak at all. On
  the float array with the same values it returns the peak at index 1 with magnitude 5.
  The differences are 5, 0, 0, -5 (or 5, \<open>-eps\<close>, \<open>-eps\<close>, -5) and their products are
  exact.
\<close>

theorem plateau_integer_array:
  "candidates exact_lt0 Int64 [0, 5, 5, 5, 0] = ([0, 0], [0, 4]) \<and>
   peak_finder exact_lt0 (ivec [0, 5, 5, 5, 0]) (Some 1) 1 = Inr (PyList [], PyList []) \<and>
   candidates exact_lt0 Float64 [0, 5, 5, 5, 0] = ([0, 5, 0], [0, 1, 4]) \<and>
   peak_finder exact_lt0 (vec [0, 5, 5, 5, 0]) (Some 1) 1 = Inr (NdArray [1], NdArray [5])"
  by code_simp

subsection \<open>A single oscillation\<close>

text \<open>
  C6. On the signal 0, 1, 0 with threshold 2 the result is empty, and on the signal
  0, 3, 0 with threshold 1 it is the single peak (1, 3): the rise has to be strictly
  above the threshold. On both inputs every difference, product and sum is exact.
\<close>

theorem single_oscillation:
  "peak_finder exact_lt0 (vec [0, 1, 0]) (Some 2) 1 = Inr (NdArray [], NdArray []) \<and>
   peak_finder exact_lt0 (vec [0, 3, 0]) (Some 1) 1 = Inr (NdArray [1], NdArray [3])"
  by code_simp

text \<open>
  The same for every height and threshold, every element type and every arithmetic in
  which the product of the rise and the fall is found negative.
\<close>

lemma single_oscillation_general:
  assumes "0 < h" and "lt0 h (- h)"
  shows "peak_finder lt0 \<lparr>shape = [3], dtype = dt, data = [0, h, 0]\<rparr> (Some t) 1 =
          (if t < h then Inr (NdArray [1], NdArray [h]) else Inr (NdArray [], NdArray []))"
proof -
  have cand: "candidates lt0 dt [0, h, 0] = ([0, h, 0], [0, 1, 2])"
    using assms by (simp add: candidates_def np_diff_def fix_zero_def sign_change_def)
  have mn: "np_min [0, h, 0] = Inr 0"
    using assms by (simp add: np_min_def)
  have boot: "bootstrap [0, h, 0] [0, 1, 2] = (0, [0, h, 0], [0, 1, 2], 3)"
    using assms by (simp add: bootstrap_def np_diff_def)
  have mp: "maxPeaks 3 = 2" by (simp add: maxPeaks_def)
  have init: "init_state 0 0 3 = \<lparr>ii = 0, temp_mag = 0, temp_loc = None, found_peak = False,
      left_min = 0, peak_loc = [0, 0], peak_mag = [0, 0], c_ind = 0\<rparr>"
    by (simp add: init_state_def mp numeral_2_eq_2)
  show ?thesis
  proof (cases "t < h")
    case True
    have body: "loop_body [0, h, 0] 3 0 t (init_state 0 0 3) =
        Inr (Cont \<lparr>ii = 2, temp_mag = h, temp_loc = Some 1, found_peak = True,
          left_min = 0, peak_loc = [1, 0], peak_mag = [h, 0], c_ind = 1\<rparr>)"
      using True assms
      by (simp add: init loop_body_def peak_reset_def peak_pending_def valley_step_def
          reset_cond_def bnd_def get_def set_item_def Let_def)
    have sc: "scan [0, h, 0] 3 0 t (init_state 0 0 3) =
        Inr \<lparr>ii = 2, temp_mag = h, temp_loc = Some 1, found_peak = True,
          left_min = 0, peak_loc = [1, 0], peak_mag = [h, 0], c_ind = 1\<rparr>"
      by (subst scan.simps, simp add: body, subst scan.simps, simp) (simp add: init)
    have "scanner [0, h, 0] [0, 1, 2] 0 t = Inr (NdArray [1], NdArray [h])"
      using assms
      by (simp add: scanner_def boot sc bnd_def finalize_def get_def)
    with True show ?thesis
      by (simp add: peak_finder_def ndim_def thresh_of_def bnd_def cand mn py_len_def)
  next
    case False
    have body: "loop_body [0, h, 0] 3 0 t (init_state 0 0 3) =
        Inr (Cont \<lparr>ii = 2, temp_mag = 0, temp_loc = None, found_peak = False,
          left_min = 0, peak_loc = [0, 0], peak_mag = [0, 0], c_ind = 0\<rparr>)"
      using False assms
      by (simp add: init loop_body_def peak_reset_def peak_pending_def valley_step_def
          reset_cond_def bnd_def get_def set_item_def Let_def)
    have sc: "scan [0, h, 0] 3 0 t (init_state 0 0 3) =
        Inr \<lparr>ii = 2, temp_mag = 0, temp_loc = None, found_peak = False,
          left_min = 0, peak_loc = [0, 0], peak_mag = [0, 0], c_ind = 0\<rparr>"
      by (subst scan.simps, simp add: body, subst scan.simps, simp) (simp add: init)
    have "scanner [0, h, 0] [0, 1, 2] 0 t = Inr (NdArray [], NdArray [])"
      using assms
      by (simp add: scanner_def boot sc bnd_def finalize_def get_def)
    with False show ?thesis
      by (simp add: peak_finder_def ndim_def thresh_of_def bnd_def cand mn py_len_def)
  qed
qed

text \<open>
  When the product of the rise and the fall is not found negative (it underflows to
  zero for a height such as \<open>2^-540\<close>), only the end points are candidates and nothing is
  returned.
\<close>

lemma single_oscillation_underflow:
  assumes "0 < h" and "\<not> lt0 h (- h)" and "0 \<le> t"
  shows "peak_finder lt0 \<lparr>shape = [3], dtype = dt, data = [0, h, 0]\<rparr> (Some t) 1 =
          Inr (PyList [], PyList [])"
proof -
  have cand: "candidates lt0 dt [0, h, 0] = ([0, 0], [0, 2])"
    using assms by (simp add: candidates_def np_diff_def fix_zero_def sign_change_def)
  have mn: "np_min [0, 0] = Inr 0"
    by (simp add: np_min_def)
  have am: "np_argmax [0, 0] = Inr 0"
    by (simp add: np_argmax_def)
  show ?thesis
    using assms(3)
    by (simp add: peak_finder_def ndim_def thresh_of_def bnd_def cand mn am
        degenerate_def get_def py_len_def)
qed

subsection \<open>Capacity\<close>


subsection \<open>What one round does\<close>










subsection \<open>The loop keeps the invariants\<close>








subsection \<open>The loop as a whole\<close>



subsection \<open>Start, exit and the end point\<close>













text \<open>
  With a negative threshold the bound fails: on the integer array 1, 0, 0, 1, 0, 1 and
  threshold -3 the end point check writes a third record into arrays of two.
\<close>

lemma negative_thresh_out_of_range:
  "peak_finder exact_lt0 (ivec [1, 0, 0, 1, 0, 1]) (Some (- 3)) 1 = Inl IndexError"
  by code_simp

subsection \<open>Order of the returned indices\<close>








text \<open>
  With a negative threshold the order fails: on the integer array 1, 0, 0, 1, 0, 1, 0
  and threshold -3 the stale pending position 0 is written twice.
\<close>

lemma negative_thresh_repeats_index:
  "peak_finder exact_lt0 (ivec [1, 0, 0, 1, 0, 1, 0]) (Some (- 3)) 1
     = Inr (NdArray [0, 0], NdArray [1, 0])"
  by code_simp


end
